theory Spec2Isabelle
  imports Main "HOL-Library.Sublist"
begin

section \<open>Competitive landscape service: values and text\<close>

text \<open>
  The service of \<^verbatim>\<open>main.py\<close> reads competitor rows of a brand, formats them into a
  prompt, asks a completion service for a two-field analysis and upserts it into the
  table \<^verbatim>\<open>competitor_summary\<close>. The external clients (the store and the completion
  service) are parameters of the model; every function of the source is a definition
  of the same name.
\<close>

subsection \<open>Python values of a row dictionary\<close>

text \<open>
  A competitor row is a \<^verbatim>\<open>Dict\<close> decoded from JSON: a key is absent or bound to a
  value, and a value may be \<^verbatim>\<open>None\<close>.
\<close>

datatype pyval = PNone | PStr string | PInt int | PBool bool

type_synonym comp_row = "string \<rightharpoonup> pyval"

definition nl :: string where
  "nl = [CHR 0x0A]"

fun str_nat :: "nat \<Rightarrow> string" where
  "str_nat n =
     (if n < 10 then [''0123456789'' ! n]
      else str_nat (n div 10) @ [''0123456789'' ! (n mod 10)])"

declare str_nat.simps [simp del]

definition str_int :: "int \<Rightarrow> string" where
  "str_int i = (if i < 0 then ''-'' @ str_nat (nat (- i)) else str_nat (nat i))"

text \<open>\<^verbatim>\<open>str(v)\<close>, which is what an f-string field \<^verbatim>\<open>{v}\<close> renders.\<close>

fun py_str :: "pyval \<Rightarrow> string" where
  "py_str PNone = ''None''"
| "py_str (PStr s) = s"
| "py_str (PInt i) = str_int i"
| "py_str (PBool b) = (if b then ''True'' else ''False'')"

text \<open>\<^verbatim>\<open>comp.get(key, default)\<close>: the default is taken only when the key is absent.\<close>

definition dict_get :: "comp_row \<Rightarrow> string \<Rightarrow> pyval \<Rightarrow> pyval" where
  "dict_get competitor key dflt = (case competitor key of None \<Rightarrow> dflt | Some v \<Rightarrow> v)"

subsection \<open>The prompt of \<^verbatim>\<open>analyze_competitive_landscape\<close>\<close>

definition indent8 :: string where
  "indent8 = ''        ''"

text \<open>The nine labelled lines of a block, as (label, key), in the order of the source.\<close>

definition competitor_fields :: "(string \<times> string) list" where
  "competitor_fields =
     [(''Competitor'', ''competitor_name''),
      (''Program Summary'', ''program_summary''),
      (''Market Position'', ''competitor_positioning''),
      (''Rewards & Benefits'', ''competitor_rewards_benefits''),
      (''User Feedback'', ''competitor_user_feedback''),
      (''Strengths'', ''competitor_strength''),
      (''Weaknesses'', ''competitor_weakness''),
      (''Opportunities'', ''competitor_opportunity''),
      (''Threats'', ''competitor_threats'')]"

text \<open>One line \<^verbatim>\<open>        Label: {comp.get('key', 'N/A')}\<close> of the f-string, without its newline.\<close>

definition field_line :: "comp_row \<Rightarrow> string \<times> string \<Rightarrow> string" where
  "field_line competitor f =
     indent8 @ fst f @ '': '' @ py_str (dict_get competitor (snd f) (PStr ''N/A''))"

definition delimiter_line :: string where
  "delimiter_line = indent8 @ ''---''"

text \<open>
  The f-string added to \<^verbatim>\<open>competitors_overview\<close> for one competitor: a newline, the
  nine lines, the delimiter line, and the indentation before the closing quotes.
\<close>

definition competitor_block :: "comp_row \<Rightarrow> string" where
  "competitor_block competitor =
     nl @ field_line competitor (''Competitor'', ''competitor_name'') @
     nl @ field_line competitor (''Program Summary'', ''program_summary'') @
     nl @ field_line competitor (''Market Position'', ''competitor_positioning'') @
     nl @ field_line competitor (''Rewards & Benefits'', ''competitor_rewards_benefits'') @
     nl @ field_line competitor (''User Feedback'', ''competitor_user_feedback'') @
     nl @ field_line competitor (''Strengths'', ''competitor_strength'') @
     nl @ field_line competitor (''Weaknesses'', ''competitor_weakness'') @
     nl @ field_line competitor (''Opportunities'', ''competitor_opportunity'') @
     nl @ field_line competitor (''Threats'', ''competitor_threats'') @
     nl @ delimiter_line @
     nl @ indent8"

text \<open>
  The loop \<^verbatim>\<open>for comp in competitors_data: competitors_overview += f"""..."""\<close>,
  with the string built so far as accumulator.
\<close>

fun overview_loop :: "string \<Rightarrow> comp_row list \<Rightarrow> string" where
  "overview_loop acc [] = acc"
| "overview_loop acc (competitor # rest) = overview_loop (acc @ competitor_block competitor) rest"

definition competitors_overview :: "comp_row list \<Rightarrow> string" where
  "competitors_overview competitors_data = overview_loop [] competitors_data"

definition indent4 :: string where
  "indent4 = ''    ''"

definition build_prompt :: "string \<Rightarrow> comp_row list \<Rightarrow> string" where
  "build_prompt brand_name competitors_data =
     ''Analyze this competitive landscape data for '' @ brand_name @ '''s market:'' @ nl @
     nl @
     indent4 @ competitors_overview competitors_data @ nl @
     nl @
     indent4 @ ''Create two comprehensive analyses:'' @ nl @
     indent4 @ ''1. A summary of the competitive loyalty landscape using the data about the competitors loyalty programs.'' @ nl @
     indent4 @ ''2. Specific gaps and opportunities that '' @ brand_name @
       '' could exploit when designing their loyalty program, be very specific and reference specific examples from the competitor data.'' @ nl @
     nl @
     indent4 @ ''Consider:'' @ nl @
     indent4 @ ''- Common strengths and weaknesses across competitors'' @ nl @
     indent4 @ ''- Unmet customer needs'' @ nl @
     indent4 @ ''- Market gaps'' @ nl @
     indent4 @ ''- Innovative opportunities'' @ nl @
     indent4 @ ''- Potential differentiation strategies''"

definition system_content :: "string \<Rightarrow> string" where
  "system_content brand_name =
     ''You are a strategic analyst helping '' @ brand_name @
     '' design a competitive loyalty program.''"


section \<open>The store, the completion service and the handler\<close>

subsection \<open>Data\<close>

text \<open>The pydantic model \<^verbatim>\<open>CompetitiveLandscape\<close>.\<close>

record CompetitiveLandscape =
  competitive_summary :: string
  gaps_opportunities :: string

text \<open>The pydantic model \<^verbatim>\<open>CompetitiveLandscapeResponse\<close>, the body of a 200 answer.\<close>

record CompetitiveLandscapeResponse =
  resp_brand_name :: string
  resp_competitive_summary :: string
  resp_gaps_opportunities :: string

text \<open>A row of the table \<^verbatim>\<open>competitor_summary\<close>.\<close>

record summary_row =
  row_id :: nat
  row_brand_name :: string
  row_competitive_summary :: string
  row_gaps_opportunities :: string

text \<open>
  Exceptions: FastAPI's \<^verbatim>\<open>HTTPException(status_code, detail)\<close>, and any other
  exception, given by its message \<^verbatim>\<open>str(e)\<close>.
\<close>

datatype exn = HTTPException nat string | Error string

datatype level = INFO | ERROR

text \<open>Requests sent to the store, in the order they are issued.\<close>

datatype store_call =
    SelectCompetitors string
  | SelectSummary string
  | UpdateSummary string string string
  | InsertSummary string string string

text \<open>
  The state a request runs in: the two tables, the requests issued to the store so
  far, and the log. A row of \<^verbatim>\<open>competitors\<close> is kept as its brand and the
  dictionary of its nine selected columns.
\<close>

record world =
  competitors :: "(string \<times> comp_row) list"
  competitor_summary :: "summary_row list"
  calls :: "store_call list"
  log :: "(level \<times> string) list"

text \<open>
  What the external clients do, which the source does not decide: whether a request
  to the store raises (and what), the id the store gives a new row, the answer of
  the completion service (an exception, or the parsed object, which the client
  returns as \<^verbatim>\<open>None\<close> when the model refuses), and \<^verbatim>\<open>str(e)\<close> of an
  \<^verbatim>\<open>HTTPException\<close>, which the web framework defines.
\<close>

record env =
  competitors_select_fault :: "exn option"
  summary_select_fault :: "exn option"
  summary_update_fault :: "exn option"
  summary_insert_fault :: "exn option"
  new_id :: "summary_row list \<Rightarrow> nat"
  completion :: "string \<Rightarrow> string \<Rightarrow> exn + CompetitiveLandscape option"
  http_exception_str :: "nat \<Rightarrow> string \<Rightarrow> string"

definition str_exn :: "env \<Rightarrow> exn \<Rightarrow> string" where
  "str_exn E e = (case e of HTTPException c d \<Rightarrow> http_exception_str E c d | Error m \<Rightarrow> m)"

definition logger_info :: "string \<Rightarrow> world \<Rightarrow> world" where
  "logger_info m w = w\<lparr>log := log w @ [(INFO, m)]\<rparr>"

definition logger_error :: "string \<Rightarrow> world \<Rightarrow> world" where
  "logger_error m w = w\<lparr>log := log w @ [(ERROR, m)]\<rparr>"

definition issue :: "store_call \<Rightarrow> world \<Rightarrow> world" where
  "issue c w = w\<lparr>calls := calls w @ [c]\<rparr>"

subsection \<open>Requests to the store\<close>

text \<open>
  \<^verbatim>\<open>table(t).select(..).eq('brand_name', b).execute()\<close> returns the rows whose
  brand is \<^verbatim>\<open>b\<close>, in table order; \<^verbatim>\<open>update(d).eq('brand_name', b)\<close> writes the
  fields of \<^verbatim>\<open>d\<close> in every row whose brand is \<^verbatim>\<open>b\<close> and returns those rows;
  \<^verbatim>\<open>insert(d)\<close> appends one row and returns it. A request that raises changes
  no table.
\<close>

definition competitor_rows :: "string \<Rightarrow> world \<Rightarrow> comp_row list" where
  "competitor_rows brand_name w = map snd (filter (\<lambda>r. fst r = brand_name) (competitors w))"

definition select_competitors ::
  "env \<Rightarrow> string \<Rightarrow> world \<Rightarrow> (exn + comp_row list) \<times> world" where
  "select_competitors E brand_name w =
     (case competitors_select_fault E of
        Some e \<Rightarrow> (Inl e, issue (SelectCompetitors brand_name) w)
      | None \<Rightarrow> (Inr (competitor_rows brand_name w), issue (SelectCompetitors brand_name) w))"

text \<open>The summary rows of a brand.\<close>

definition rows_of :: "string \<Rightarrow> world \<Rightarrow> summary_row list" where
  "rows_of brand_name w = filter (\<lambda>r. row_brand_name r = brand_name) (competitor_summary w)"

definition select_summary ::
  "env \<Rightarrow> string \<Rightarrow> world \<Rightarrow> (exn + summary_row list) \<times> world" where
  "select_summary E brand_name w =
     (case summary_select_fault E of
        Some e \<Rightarrow> (Inl e, issue (SelectSummary brand_name) w)
      | None \<Rightarrow> (Inr (rows_of brand_name w), issue (SelectSummary brand_name) w))"

definition write_fields :: "string \<Rightarrow> string \<Rightarrow> string \<Rightarrow> summary_row \<Rightarrow> summary_row" where
  "write_fields brand_name cs go r =
     (if row_brand_name r = brand_name
      then r\<lparr>row_competitive_summary := cs, row_gaps_opportunities := go\<rparr>
      else r)"

definition update_summary ::
  "env \<Rightarrow> string \<Rightarrow> string \<Rightarrow> string \<Rightarrow> world \<Rightarrow> (exn + summary_row list) \<times> world" where
  "update_summary E brand_name cs go w =
     (case summary_update_fault E of
        Some e \<Rightarrow> (Inl e, issue (UpdateSummary brand_name cs go) w)
      | None \<Rightarrow>
          (let table = map (write_fields brand_name cs go) (competitor_summary w)
           in (Inr (filter (\<lambda>r. row_brand_name r = brand_name) table),
               issue (UpdateSummary brand_name cs go) (w\<lparr>competitor_summary := table\<rparr>))))"

definition insert_summary ::
  "env \<Rightarrow> string \<Rightarrow> string \<Rightarrow> string \<Rightarrow> world \<Rightarrow> (exn + summary_row list) \<times> world" where
  "insert_summary E brand_name cs go w =
     (case summary_insert_fault E of
        Some e \<Rightarrow> (Inl e, issue (InsertSummary brand_name cs go) w)
      | None \<Rightarrow>
          (let r = \<lparr>row_id = new_id E (competitor_summary w), row_brand_name = brand_name,
                    row_competitive_summary = cs, row_gaps_opportunities = go\<rparr>
           in (Inr [r],
               issue (InsertSummary brand_name cs go)
                 (w\<lparr>competitor_summary := competitor_summary w @ [r]\<rparr>))))"

subsection \<open>The functions of \<^verbatim>\<open>main.py\<close>\<close>

definition get_competitors_data ::
  "env \<Rightarrow> string \<Rightarrow> world \<Rightarrow> (exn + comp_row list) \<times> world" where
  "get_competitors_data E brand_name w = select_competitors E brand_name w"

definition analyze_competitive_landscape ::
  "env \<Rightarrow> string \<Rightarrow> comp_row list \<Rightarrow> exn + CompetitiveLandscape option" where
  "analyze_competitive_landscape E brand_name competitors_data =
     completion E (system_content brand_name) (build_prompt brand_name competitors_data)"

text \<open>Reading a field of the analysis raises \<^verbatim>\<open>AttributeError\<close> when it is \<^verbatim>\<open>None\<close>.\<close>

definition attribute_error :: exn where
  "attribute_error =
     Error ([CHR 0x27] @ ''NoneType'' @ [CHR 0x27] @ '' object has no attribute '' @
            [CHR 0x27] @ ''competitive_summary'' @ [CHR 0x27])"


text \<open>\<^verbatim>\<open>response.data[0]\<close> raises \<^verbatim>\<open>IndexError\<close> on an empty list.\<close>

definition first_row :: "summary_row list \<Rightarrow> exn + summary_row" where
  "first_row data =
     (case data of [] \<Rightarrow> Inl (Error ''list index out of range'') | r # _ \<Rightarrow> Inr r)"

text \<open>
  The body of the \<^verbatim>\<open>try\<close> of \<^verbatim>\<open>save_landscape_analysis\<close>: the existence check, then
  the update or the insert, the info line, and the first row of the answer.
\<close>

definition save_try ::
  "env \<Rightarrow> string \<Rightarrow> CompetitiveLandscape option \<Rightarrow> world \<Rightarrow> (exn + summary_row) \<times> world" where
  "save_try E brand_name analysis w =
     (case select_summary E brand_name w of
        (Inl e, w1) \<Rightarrow> (Inl e, w1)
      | (Inr existing, w1) \<Rightarrow>
          (case analysis of
             None \<Rightarrow> (Inl attribute_error, w1)
           | Some a \<Rightarrow>
               (case (if existing \<noteq> []
                      then update_summary E brand_name
                             (competitive_summary a) (gaps_opportunities a) w1
                      else insert_summary E brand_name
                             (competitive_summary a) (gaps_opportunities a) w1) of
                  (Inl e, w2) \<Rightarrow> (Inl e, w2)
                | (Inr data, w2) \<Rightarrow>
                    (first_row data,
                     logger_info (''Successfully saved landscape analysis for '' @ brand_name)
                       w2))))"

text \<open>The \<^verbatim>\<open>except Exception as e\<close> of the function: log the error and raise it again.\<close>

definition save_landscape_analysis ::
  "env \<Rightarrow> string \<Rightarrow> CompetitiveLandscape option \<Rightarrow> world \<Rightarrow> (exn + summary_row) \<times> world" where
  "save_landscape_analysis E brand_name analysis w =
     (case save_try E brand_name analysis w of
        (Inl e, w') \<Rightarrow> (Inl e, logger_error (''Error saving analysis: '' @ str_exn E e) w')
      | (Inr r, w') \<Rightarrow> (Inr r, w'))"

text \<open>The body of the \<^verbatim>\<open>try\<close> of the handler \<^verbatim>\<open>create_analysis\<close>.\<close>

definition create_try ::
  "env \<Rightarrow> string \<Rightarrow> world \<Rightarrow> (exn + CompetitiveLandscapeResponse) \<times> world" where
  "create_try E brand_name w =
     (case get_competitors_data E brand_name
             (logger_info (''Starting analysis for brand: '' @ brand_name) w) of
        (Inl e, w1) \<Rightarrow> (Inl e, w1)
      | (Inr competitors_data, w1) \<Rightarrow>
          if competitors_data = []
          then (Inl (HTTPException 404 ''No competitor data found''),
                logger_error (''No competitor data found for '' @ brand_name) w1)
          else
            (case analyze_competitive_landscape E brand_name competitors_data of
               Inl e \<Rightarrow>
                 (Inl e,
                  logger_info (''Found data for '' @ str_nat (length competitors_data) @
                               '' competitors'') w1)
             | Inr analysis \<Rightarrow>
                 (case save_landscape_analysis E brand_name analysis
                         (logger_info (''Found data for '' @ str_nat (length competitors_data) @
                                       '' competitors'') w1) of
                    (Inl e, w3) \<Rightarrow> (Inl e, w3)
                  | (Inr saved_analysis, w3) \<Rightarrow>
                      (case analysis of
                         None \<Rightarrow> (Inl attribute_error, w3)
                       | Some a \<Rightarrow>
                           (Inr \<lparr>resp_brand_name = brand_name,
                                 resp_competitive_summary = competitive_summary a,
                                 resp_gaps_opportunities = gaps_opportunities a\<rparr>,
                            w3)))))"

text \<open>
  The handler of \<^verbatim>\<open>POST /analyze/{brand_name}\<close>: its \<^verbatim>\<open>except Exception as e\<close>
  catches whatever the body raised, logs it and raises \<^verbatim>\<open>HTTPException(500, str(e))\<close>.
\<close>

definition create_analysis ::
  "env \<Rightarrow> string \<Rightarrow> world \<Rightarrow> (exn + CompetitiveLandscapeResponse) \<times> world" where
  "create_analysis E brand_name w =
     (case create_try E brand_name w of
        (Inl e, w') \<Rightarrow>
          (Inl (HTTPException 500 (str_exn E e)),
           logger_error (''Error processing request: '' @ str_exn E e) w')
      | (Inr r, w') \<Rightarrow> (Inr r, w'))"

text \<open>
  What the client of the handler sees: 200 for a returned model, the status of a
  raised \<^verbatim>\<open>HTTPException\<close>, and the framework's 500 for any other exception.
\<close>

definition status_code :: "exn + CompetitiveLandscapeResponse \<Rightarrow> nat" where
  "status_code res =
     (case res of Inr r \<Rightarrow> 200 | Inl (HTTPException c d) \<Rightarrow> c | Inl (Error m) \<Rightarrow> 500)"

definition is_write :: "store_call \<Rightarrow> bool" where
  "is_write c =
     (case c of UpdateSummary b cs go \<Rightarrow> True | InsertSummary b cs go \<Rightarrow> True
      | SelectCompetitors b \<Rightarrow> False | SelectSummary b \<Rightarrow> False)"

subsection \<open>Example inputs\<close>

text \<open>
  A store client and a completion service that never raise; the completion answers
  with a fixed analysis, and \<^verbatim>\<open>str\<close> of an \<^verbatim>\<open>HTTPException\<close> is
  \<^verbatim>\<open>"{status_code}: {detail}"\<close>.
\<close>

definition analysis1 :: CompetitiveLandscape where
  "analysis1 = \<lparr>competitive_summary = ''crowded'', gaps_opportunities = ''tiers''\<rparr>"

definition analysis2 :: CompetitiveLandscape where
  "analysis2 = \<lparr>competitive_summary = ''sparse'', gaps_opportunities = ''coupons''\<rparr>"

definition env1 :: env where
  "env1 =
     \<lparr>competitors_select_fault = None, summary_select_fault = None,
      summary_update_fault = None, summary_insert_fault = None,
      new_id = (\<lambda>t. Suc (length t)),
      completion = (\<lambda>sys usr. Inr (Some analysis1)),
      http_exception_str = (\<lambda>c d. str_nat c @ '': '' @ d)\<rparr>"

definition env2 :: env where
  "env2 = env1\<lparr>completion := (\<lambda>sys usr. Inr (Some analysis2))\<rparr>"

text \<open>The completion service raises.\<close>

definition env_llm_down :: env where
  "env_llm_down = env1\<lparr>completion := (\<lambda>sys usr. Inl (Error ''Connection error.''))\<rparr>"

text \<open>The store raises on every request to the summary table.\<close>

definition env_store_down :: env where
  "env_store_down =
     env1\<lparr>summary_select_fault := Some (Error ''select failed''),
          summary_update_fault := Some (Error ''update failed''),
          summary_insert_fault := Some (Error ''insert failed'')\<rparr>"

definition env_update_down :: env where
  "env_update_down = env1\<lparr>summary_update_fault := Some (Error ''update failed'')\<rparr>"

definition env_insert_down :: env where
  "env_insert_down = env1\<lparr>summary_insert_fault := Some (Error ''insert failed'')\<rparr>"

definition env_fetch_down :: env where
  "env_fetch_down = env1\<lparr>competitors_select_fault := Some (Error ''fetch failed'')\<rparr>"

text \<open>A store with no competitor of any brand and no summary.\<close>

definition world0 :: world where
  "world0 = \<lparr>competitors = [], competitor_summary = [], calls = [], log = []\<rparr>"

text \<open>One competitor of Acme, whose row lacks every key but the name; no summary yet.\<close>

definition world1 :: world where
  "world1 =
     \<lparr>competitors = [(''Acme'', [''competitor_name'' \<mapsto> PStr ''Rival''])],
      competitor_summary = [], calls = [], log = []\<rparr>"

text \<open>The same competitor, and one summary row of Acme beside one of another brand.\<close>

definition world2 :: world where
  "world2 =
     world1\<lparr>competitor_summary :=
       [\<lparr>row_id = 1, row_brand_name = ''Acme'',
         row_competitive_summary = ''old'', row_gaps_opportunities = ''older''\<rparr>,
        \<lparr>row_id = 2, row_brand_name = ''Zeta'',
         row_competitive_summary = ''z'', row_gaps_opportunities = ''zz''\<rparr>]\<rparr>"

text \<open>The same competitor, and two summary rows of Acme.\<close>

definition world_dup :: world where
  "world_dup =
     world1\<lparr>competitor_summary :=
       [\<lparr>row_id = 1, row_brand_name = ''Acme'',
         row_competitive_summary = ''old'', row_gaps_opportunities = ''older''\<rparr>,
        \<lparr>row_id = 2, row_brand_name = ''Acme'',
         row_competitive_summary = ''dup'', row_gaps_opportunities = ''dupe''\<rparr>]\<rparr>"


section \<open>Properties of the prompt\<close>

subsection \<open>The loop and the block\<close>

lemma overview_loop_acc: "overview_loop acc cs = acc @ concat (map competitor_block cs)"
  by (induction cs arbitrary: acc) simp_all

lemma competitor_block_lines:
  "competitor_block c =
     concat (map (\<lambda>f. nl @ field_line c f) competitor_fields) @ nl @ delimiter_line @ nl @ indent8"
  by (simp add: competitor_block_def competitor_fields_def)

lemma field_line_in_block:
  assumes "f \<in> set competitor_fields"
  shows "sublist (nl @ field_line c f @ nl) (competitor_block c)"
proof -
  from assms obtain ys zs where fs: "competitor_fields = ys @ f # zs"
    by (auto dest: split_list)
  define L where "L = (\<lambda>f. nl @ field_line c f)"
  have "competitor_block c = concat (map L ys) @ (nl @ field_line c f) @ concat (map L zs) @ nl @ delimiter_line @ nl @ indent8"
    by (simp add: competitor_block_lines fs L_def)
  moreover have "\<exists>t. concat (map L zs) @ nl @ delimiter_line @ nl @ indent8 = nl @ t"
    by (cases zs) (simp_all add: L_def)
  ultimately obtain t where "competitor_block c = concat (map L ys) @ (nl @ field_line c f @ nl) @ t"
    by auto
  then show ?thesis
    by (simp only: sublist_appendI)
qed

lemma field_line_absent:
  "c (snd f) = None \<Longrightarrow> field_line c f = indent8 @ fst f @ '': N/A''"
  by (simp add: field_line_def dict_get_def)

lemma field_line_present:
  "c (snd f) = Some v \<Longrightarrow> field_line c f = indent8 @ fst f @ '': '' @ py_str v"
  by (simp add: field_line_def dict_get_def)

lemma sublist_mid: "sublist xs (a @ b @ xs @ c)"
  by (metis append_assoc sublist_appendI)


subsection \<open>Missing fields\<close>

text \<open>
  C6. A competitor row without the key \<^verbatim>\<open>competitor_strength\<close> gives a block that contains
  the text \<^verbatim>\<open>Strengths: N/A\<close>; and for each of the nine fields, a row without its key
  gives the labelled line \<^verbatim>\<open>Label: N/A\<close>, which is a whole line of the block.
\<close>

theorem missing_field_renders_placeholder:
  "(competitor ''competitor_strength'' = None \<longrightarrow>
      sublist ''Strengths: N/A'' (competitor_block competitor)) \<and>
   (\<forall>f \<in> set competitor_fields. competitor (snd f) = None \<longrightarrow>
      field_line competitor f = indent8 @ fst f @ '': N/A'' \<and>
      sublist (nl @ indent8 @ fst f @ '': N/A'' @ nl) (competitor_block competitor))"
proof (intro conjI impI ballI)
  assume a: "competitor ''competitor_strength'' = None"
  have m: "(''Strengths'', ''competitor_strength'') \<in> set competitor_fields"
    by (simp add: competitor_fields_def)
  have "sublist (nl @ field_line competitor (''Strengths'', ''competitor_strength'') @ nl)
          (competitor_block competitor)"
    using m by (rule field_line_in_block)
  moreover have "field_line competitor (''Strengths'', ''competitor_strength'') = indent8 @ ''Strengths: N/A''"
    using a by (simp add: field_line_absent)
  ultimately have "sublist (nl @ indent8 @ ''Strengths: N/A'' @ nl) (competitor_block competitor)"
    by simp
  moreover have "sublist ''Strengths: N/A'' (nl @ indent8 @ ''Strengths: N/A'' @ nl)"
    by (rule sublist_mid)
  ultimately show "sublist ''Strengths: N/A'' (competitor_block competitor)"
    by (rule sublist_order.order_trans[rotated])
next
  fix f assume "f \<in> set competitor_fields" "competitor (snd f) = None"
  then show "field_line competitor f = indent8 @ fst f @ '': N/A''"
    by (simp add: field_line_absent)
next
  fix f assume f: "f \<in> set competitor_fields" and a: "competitor (snd f) = None"
  from field_line_in_block[OF f, of competitor]
  show "sublist (nl @ indent8 @ fst f @ '': N/A'' @ nl) (competitor_block competitor)"
    using a by (simp add: field_line_absent)
qed

theorem missing_field_renders_placeholder_witness:
  "sublist ''Strengths: N/A'' (competitor_block [''competitor_name'' \<mapsto> PStr ''Rival'']) \<and>
   field_line [''competitor_name'' \<mapsto> PStr ''Rival''] (''Threats'', ''competitor_threats'') =
     ''        Threats: N/A''"
proof -
  have "(''Threats'', ''competitor_threats'') \<in> set competitor_fields"
    by (simp add: competitor_fields_def)
  with missing_field_renders_placeholder [of "[''competitor_name'' \<mapsto> PStr ''Rival'']"]
  show ?thesis by (simp add: indent8_def)
qed


subsection \<open>Order of the blocks\<close>

text \<open>
  C7. The overview built by the loop is the concatenation of one block per competitor,
  in the order of the list handed to the function, with nothing reordered; every block
  ends with the delimiter line; the overview is part of the prompt, and the prompt is
  what is sent to the completion service.
\<close>

theorem blocks_follow_input_order:
  "competitors_overview competitors_data = concat (map competitor_block competitors_data) \<and>
   competitors_overview (xs @ ys) = competitors_overview xs @ competitors_overview ys \<and>
   suffix (nl @ delimiter_line @ nl @ indent8) (competitor_block c) \<and>
   sublist (concat (map competitor_block competitors_data)) (build_prompt brand_name competitors_data) \<and>
   analyze_competitive_landscape E brand_name competitors_data =
     completion E (system_content brand_name) (build_prompt brand_name competitors_data)"
proof (intro conjI)
  have "\<exists>a b. build_prompt brand_name competitors_data = a @ competitors_overview competitors_data @ b"
    unfolding build_prompt_def by (metis append_assoc)
  then show "sublist (concat (map competitor_block competitors_data)) (build_prompt brand_name competitors_data)"
    by (auto simp: competitors_overview_def overview_loop_acc)
  show "suffix (nl @ delimiter_line @ nl @ indent8) (competitor_block c)"
    unfolding competitor_block_lines by (rule suffixI) (rule refl)
qed (simp_all add: competitors_overview_def overview_loop_acc analyze_competitive_landscape_def)



subsection \<open>Keys bound to \<^verbatim>\<open>None\<close>\<close>

text \<open>
  C9. When the key of a field is present, its line renders \<^verbatim>\<open>str\<close> of the value and the
  placeholder is not substituted: for the value \<^verbatim>\<open>None\<close> the line reads
  \<^verbatim>\<open>Label: None\<close>, not \<^verbatim>\<open>Label: N/A\<close>, and it is a whole line of the block.
\<close>

theorem present_none_renders_None:
  "competitor (snd f) = Some v \<Longrightarrow>
     field_line competitor f = indent8 @ fst f @ '': '' @ py_str v \<and>
     (v = PNone \<longrightarrow> field_line competitor f = indent8 @ fst f @ '': None'' \<and>
                    field_line competitor f \<noteq> indent8 @ fst f @ '': N/A'') \<and>
     (f \<in> set competitor_fields \<longrightarrow>
        sublist (nl @ indent8 @ fst f @ '': '' @ py_str v @ nl) (competitor_block competitor))"
proof (intro conjI impI)
  assume a: "competitor (snd f) = Some v"
  show l: "field_line competitor f = indent8 @ fst f @ '': '' @ py_str v"
    using a by (rule field_line_present)
  { assume "v = PNone"
    with l show "field_line competitor f = indent8 @ fst f @ '': None''" by simp
    then show "field_line competitor f \<noteq> indent8 @ fst f @ '': N/A''" by simp }
  { assume "f \<in> set competitor_fields"
    from field_line_in_block[OF this, of competitor]
    show "sublist (nl @ indent8 @ fst f @ '': '' @ py_str v @ nl) (competitor_block competitor)"
      by (simp add: l) }
qed

theorem present_none_renders_None_witness:
  "field_line [''competitor_strength'' \<mapsto> PNone] (''Strengths'', ''competitor_strength'') =
     ''        Strengths: None'' \<and>
   sublist (nl @ ''        Strengths: None'' @ nl) (competitor_block [''competitor_strength'' \<mapsto> PNone])"
proof -
  have "(''Strengths'', ''competitor_strength'') \<in> set competitor_fields"
    by (simp add: competitor_fields_def)
  with present_none_renders_None [of "[''competitor_strength'' \<mapsto> PNone]"
      "(''Strengths'', ''competitor_strength'')" PNone]
  show ?thesis by (simp add: indent8_def)
qed

section \<open>Properties of the store operations\<close>

lemma logger_info_fields [simp]:
  "competitors (logger_info m w) = competitors w"
  "competitor_summary (logger_info m w) = competitor_summary w"
  "calls (logger_info m w) = calls w"
  "log (logger_info m w) = log w @ [(INFO, m)]"
  by (simp_all add: logger_info_def)

lemma logger_error_fields [simp]:
  "competitors (logger_error m w) = competitors w"
  "competitor_summary (logger_error m w) = competitor_summary w"
  "calls (logger_error m w) = calls w"
  "log (logger_error m w) = log w @ [(ERROR, m)]"
  by (simp_all add: logger_error_def)

lemma issue_fields [simp]:
  "competitors (issue c w) = competitors w"
  "competitor_summary (issue c w) = competitor_summary w"
  "calls (issue c w) = calls w @ [c]"
  "log (issue c w) = log w"
  by (simp_all add: issue_def)

lemma rows_of_frame [simp]:
  "rows_of b (logger_info m w) = rows_of b w"
  "rows_of b (logger_error m w) = rows_of b w"
  "rows_of b (issue c w) = rows_of b w"
  by (simp_all add: rows_of_def)

lemma competitor_rows_frame [simp]:
  "competitor_rows b (logger_info m w) = competitor_rows b w"
  "competitor_rows b (logger_error m w) = competitor_rows b w"
  "competitor_rows b (issue c w) = competitor_rows b w"
  by (simp_all add: competitor_rows_def)

lemma write_fields_brand [simp]: "row_brand_name (write_fields b cs go r) = row_brand_name r"
  by (simp add: write_fields_def)

lemma write_fields_id [simp]: "row_id (write_fields b cs go r) = row_id r"
  by (simp add: write_fields_def)

lemma write_fields_other: "row_brand_name r \<noteq> b \<Longrightarrow> write_fields b cs go r = r"
  by (simp add: write_fields_def)

lemma write_fields_text:
  "row_brand_name r = b \<Longrightarrow>
     row_competitive_summary (write_fields b cs go r) = cs \<and>
     row_gaps_opportunities (write_fields b cs go r) = go"
  by (simp add: write_fields_def)

lemma filter_write_fields:
  "filter (\<lambda>r. row_brand_name r = b) (map (write_fields b cs go) t) =
   map (write_fields b cs go) (filter (\<lambda>r. row_brand_name r = b) t)"
  by (induction t) simp_all

lemma filter_other_write_fields:
  "filter (\<lambda>r. row_brand_name r \<noteq> b) (map (write_fields b cs go) t) =
   filter (\<lambda>r. row_brand_name r \<noteq> b) t"
  by (induction t) (simp_all add: write_fields_other)

text \<open>The six ways through the upsert.\<close>

lemma save_select_fails:
  assumes "summary_select_fault E = Some e"
  shows "save_landscape_analysis E b an w =
           (Inl e, logger_error (''Error saving analysis: '' @ str_exn E e) (issue (SelectSummary b) w))"
  using assms by (simp add: save_landscape_analysis_def save_try_def select_summary_def)

lemma save_no_analysis:
  assumes "summary_select_fault E = None"
  shows "save_landscape_analysis E b None w =
           (Inl attribute_error,
            logger_error (''Error saving analysis: '' @ str_exn E attribute_error)
              (issue (SelectSummary b) w))"
  using assms by (simp add: save_landscape_analysis_def save_try_def select_summary_def)

lemma save_update_fails:
  assumes "summary_select_fault E = None" "rows_of b w \<noteq> []" "summary_update_fault E = Some e"
  shows "save_landscape_analysis E b (Some a) w =
           (Inl e, logger_error (''Error saving analysis: '' @ str_exn E e)
                     (issue (UpdateSummary b (competitive_summary a) (gaps_opportunities a))
                        (issue (SelectSummary b) w)))"
  using assms
  by (simp add: save_landscape_analysis_def save_try_def select_summary_def update_summary_def)

lemma save_insert_fails:
  assumes "summary_select_fault E = None" "rows_of b w = []" "summary_insert_fault E = Some e"
  shows "save_landscape_analysis E b (Some a) w =
           (Inl e, logger_error (''Error saving analysis: '' @ str_exn E e)
                     (issue (InsertSummary b (competitive_summary a) (gaps_opportunities a))
                        (issue (SelectSummary b) w)))"
  using assms
  by (simp add: save_landscape_analysis_def save_try_def select_summary_def insert_summary_def)

lemma first_row_nonempty: "data \<noteq> [] \<Longrightarrow> first_row data = Inr (hd data)"
  by (cases data) (simp_all add: first_row_def)

lemma save_updates:
  assumes "summary_select_fault E = None" "rows_of b w \<noteq> []" "summary_update_fault E = None"
  shows "save_landscape_analysis E b (Some a) w =
           (Inr (write_fields b (competitive_summary a) (gaps_opportunities a) (hd (rows_of b w))),
            logger_info (''Successfully saved landscape analysis for '' @ b)
              (issue (UpdateSummary b (competitive_summary a) (gaps_opportunities a))
                 ((issue (SelectSummary b) w)
                    \<lparr>competitor_summary :=
                       map (write_fields b (competitive_summary a) (gaps_opportunities a))
                         (competitor_summary w)\<rparr>)))"
proof -
  have "filter (\<lambda>r. row_brand_name r = b)
          (map (write_fields b (competitive_summary a) (gaps_opportunities a)) (competitor_summary w))
        \<noteq> []"
    using assms(2) by (simp add: filter_write_fields rows_of_def)
  moreover have "hd (filter (\<lambda>r. row_brand_name r = b)
          (map (write_fields b (competitive_summary a) (gaps_opportunities a)) (competitor_summary w)))
        = write_fields b (competitive_summary a) (gaps_opportunities a) (hd (rows_of b w))"
    using assms(2) by (simp add: filter_write_fields rows_of_def hd_map)
  ultimately show ?thesis
    using assms
    by (simp add: save_landscape_analysis_def save_try_def select_summary_def update_summary_def
        first_row_nonempty Let_def)
qed

lemma save_inserts:
  assumes "summary_select_fault E = None" "rows_of b w = []" "summary_insert_fault E = None"
  shows "save_landscape_analysis E b (Some a) w =
           (Inr \<lparr>row_id = new_id E (competitor_summary w), row_brand_name = b,
                 row_competitive_summary = competitive_summary a,
                 row_gaps_opportunities = gaps_opportunities a\<rparr>,
            logger_info (''Successfully saved landscape analysis for '' @ b)
              (issue (InsertSummary b (competitive_summary a) (gaps_opportunities a))
                 ((issue (SelectSummary b) w)
                    \<lparr>competitor_summary := competitor_summary w @
                       [\<lparr>row_id = new_id E (competitor_summary w), row_brand_name = b,
                         row_competitive_summary = competitive_summary a,
                         row_gaps_opportunities = gaps_opportunities a\<rparr>]\<rparr>)))"
  using assms
  by (simp add: save_landscape_analysis_def save_try_def select_summary_def insert_summary_def
      first_row_def Let_def)

text \<open>The first request of the upsert is the existence check.\<close>

lemma save_first_call:
  "take (Suc (length (calls w))) (calls (snd (save_landscape_analysis E b an w))) =
     calls w @ [SelectSummary b]"
  by (simp add: save_landscape_analysis_def save_try_def select_summary_def update_summary_def
      insert_summary_def Let_def split: option.splits sum.splits)

subsection \<open>The upsert\<close>

text \<open>
  C4. \<^verbatim>\<open>save_landscape_analysis\<close> first asks the store for the summary rows of the
  brand. When the answer is not empty it updates the two text fields of the rows of
  that brand; when it is empty it inserts a new row holding the brand and the two
  fields. When the store raises at the check, at the update or at the insert, the
  function logs the error and raises the same exception, and no row has changed.
\<close>

theorem upsert_checks_then_updates_or_inserts:
  "take (Suc (length (calls w))) (calls (snd (save_landscape_analysis E brand_name an w))) =
     calls w @ [SelectSummary brand_name] \<and>
   (summary_select_fault E = None \<and> rows_of brand_name w \<noteq> [] \<and>
    summary_update_fault E = None \<longrightarrow>
      fst (save_landscape_analysis E brand_name (Some a) w) =
        Inr (write_fields brand_name (competitive_summary a) (gaps_opportunities a)
               (hd (rows_of brand_name w))) \<and>
      competitor_summary (snd (save_landscape_analysis E brand_name (Some a) w)) =
        map (write_fields brand_name (competitive_summary a) (gaps_opportunities a))
          (competitor_summary w) \<and>
      calls (snd (save_landscape_analysis E brand_name (Some a) w)) =
        calls w @ [SelectSummary brand_name,
                   UpdateSummary brand_name (competitive_summary a) (gaps_opportunities a)]) \<and>
   (summary_select_fault E = None \<and> rows_of brand_name w = [] \<and>
    summary_insert_fault E = None \<longrightarrow>
      fst (save_landscape_analysis E brand_name (Some a) w) =
        Inr \<lparr>row_id = new_id E (competitor_summary w), row_brand_name = brand_name,
             row_competitive_summary = competitive_summary a,
             row_gaps_opportunities = gaps_opportunities a\<rparr> \<and>
      competitor_summary (snd (save_landscape_analysis E brand_name (Some a) w)) =
        competitor_summary w @
          [\<lparr>row_id = new_id E (competitor_summary w), row_brand_name = brand_name,
            row_competitive_summary = competitive_summary a,
            row_gaps_opportunities = gaps_opportunities a\<rparr>] \<and>
      calls (snd (save_landscape_analysis E brand_name (Some a) w)) =
        calls w @ [SelectSummary brand_name,
                   InsertSummary brand_name (competitive_summary a) (gaps_opportunities a)]) \<and>
   ((summary_select_fault E = Some e \<or>
     summary_select_fault E = None \<and> rows_of brand_name w \<noteq> [] \<and>
       summary_update_fault E = Some e \<or>
     summary_select_fault E = None \<and> rows_of brand_name w = [] \<and>
       summary_insert_fault E = Some e) \<longrightarrow>
      fst (save_landscape_analysis E brand_name (Some a) w) = Inl e \<and>
      log (snd (save_landscape_analysis E brand_name (Some a) w)) =
        log w @ [(ERROR, ''Error saving analysis: '' @ str_exn E e)] \<and>
      competitor_summary (snd (save_landscape_analysis E brand_name (Some a) w)) =
        competitor_summary w)"
proof (intro conjI impI)
  show "take (Suc (length (calls w))) (calls (snd (save_landscape_analysis E brand_name an w))) =
     calls w @ [SelectSummary brand_name]"
    by (rule save_first_call)
next
  assume "summary_select_fault E = None \<and> rows_of brand_name w \<noteq> [] \<and> summary_update_fault E = None"
  then have s: "save_landscape_analysis E brand_name (Some a) w = 
           (Inr (write_fields brand_name (competitive_summary a) (gaps_opportunities a) (hd (rows_of brand_name w))),
            logger_info (''Successfully saved landscape analysis for '' @ brand_name)
              (issue (UpdateSummary brand_name (competitive_summary a) (gaps_opportunities a))
                 ((issue (SelectSummary brand_name) w)
                    \<lparr>competitor_summary :=
                       map (write_fields brand_name (competitive_summary a) (gaps_opportunities a))
                         (competitor_summary w)\<rparr>)))"
    by (simp add: save_updates)
  show "fst (save_landscape_analysis E brand_name (Some a) w) =
        Inr (write_fields brand_name (competitive_summary a) (gaps_opportunities a)
               (hd (rows_of brand_name w)))"
    by (simp add: s)
  show "competitor_summary (snd (save_landscape_analysis E brand_name (Some a) w)) =
        map (write_fields brand_name (competitive_summary a) (gaps_opportunities a))
          (competitor_summary w)"
    by (simp add: s)
  show "calls (snd (save_landscape_analysis E brand_name (Some a) w)) =
        calls w @ [SelectSummary brand_name,
                   UpdateSummary brand_name (competitive_summary a) (gaps_opportunities a)]"
    by (simp add: s)
next
  assume "summary_select_fault E = None \<and> rows_of brand_name w = [] \<and> summary_insert_fault E = None"
  then have s: "save_landscape_analysis E brand_name (Some a) w =
           (Inr \<lparr>row_id = new_id E (competitor_summary w), row_brand_name = brand_name,
                 row_competitive_summary = competitive_summary a,
                 row_gaps_opportunities = gaps_opportunities a\<rparr>,
            logger_info (''Successfully saved landscape analysis for '' @ brand_name)
              (issue (InsertSummary brand_name (competitive_summary a) (gaps_opportunities a))
                 ((issue (SelectSummary brand_name) w)
                    \<lparr>competitor_summary := competitor_summary w @
                       [\<lparr>row_id = new_id E (competitor_summary w), row_brand_name = brand_name,
                         row_competitive_summary = competitive_summary a,
                         row_gaps_opportunities = gaps_opportunities a\<rparr>]\<rparr>)))"
    by (simp add: save_inserts)
  show "fst (save_landscape_analysis E brand_name (Some a) w) =
        Inr \<lparr>row_id = new_id E (competitor_summary w), row_brand_name = brand_name,
             row_competitive_summary = competitive_summary a,
             row_gaps_opportunities = gaps_opportunities a\<rparr>"
    by (simp add: s)
  show "competitor_summary (snd (save_landscape_analysis E brand_name (Some a) w)) =
        competitor_summary w @
          [\<lparr>row_id = new_id E (competitor_summary w), row_brand_name = brand_name,
            row_competitive_summary = competitive_summary a,
            row_gaps_opportunities = gaps_opportunities a\<rparr>]"
    by (simp add: s)
  show "calls (snd (save_landscape_analysis E brand_name (Some a) w)) =
        calls w @ [SelectSummary brand_name,
                   InsertSummary brand_name (competitive_summary a) (gaps_opportunities a)]"
    by (simp add: s)
next
  assume f: "summary_select_fault E = Some e \<or>
     summary_select_fault E = None \<and> rows_of brand_name w \<noteq> [] \<and>
       summary_update_fault E = Some e \<or>
     summary_select_fault E = None \<and> rows_of brand_name w = [] \<and>
       summary_insert_fault E = Some e"
  then have "\<exists>w'. save_landscape_analysis E brand_name (Some a) w =
                 (Inl e, logger_error (''Error saving analysis: '' @ str_exn E e) w') \<and>
               log w' = log w \<and> competitor_summary w' = competitor_summary w"
    by (auto simp: save_select_fails save_update_fails save_insert_fails)
  then obtain w' where s: "save_landscape_analysis E brand_name (Some a) w =
                 (Inl e, logger_error (''Error saving analysis: '' @ str_exn E e) w')"
    and l: "log w' = log w" and t: "competitor_summary w' = competitor_summary w"
    by blast
  show "fst (save_landscape_analysis E brand_name (Some a) w) = Inl e"
    by (simp add: s)
  show "log (snd (save_landscape_analysis E brand_name (Some a) w)) =
        log w @ [(ERROR, ''Error saving analysis: '' @ str_exn E e)]"
    by (simp add: s l)
  show "competitor_summary (snd (save_landscape_analysis E brand_name (Some a) w)) =
        competitor_summary w"
    by (simp add: s t)
qed

theorem upsert_checks_then_updates_or_inserts_witness:
  "competitor_summary (snd (save_landscape_analysis env1 ''Acme'' (Some analysis1) world2)) =
     [\<lparr>row_id = 1, row_brand_name = ''Acme'',
       row_competitive_summary = ''crowded'', row_gaps_opportunities = ''tiers''\<rparr>,
      \<lparr>row_id = 2, row_brand_name = ''Zeta'',
       row_competitive_summary = ''z'', row_gaps_opportunities = ''zz''\<rparr>] \<and>
   competitor_summary (snd (save_landscape_analysis env1 ''Acme'' (Some analysis1) world1)) =
     [\<lparr>row_id = 1, row_brand_name = ''Acme'',
       row_competitive_summary = ''crowded'', row_gaps_opportunities = ''tiers''\<rparr>] \<and>
   fst (save_landscape_analysis env_store_down ''Acme'' (Some analysis1) world2) =
     Inl (Error ''select failed'') \<and>
   fst (save_landscape_analysis env_update_down ''Acme'' (Some analysis1) world2) =
     Inl (Error ''update failed'') \<and>
   fst (save_landscape_analysis env_insert_down ''Acme'' (Some analysis1) world1) =
     Inl (Error ''insert failed'')"
proof (intro conjI)
  show "competitor_summary (snd (save_landscape_analysis env1 ''Acme'' (Some analysis1) world2)) =
     [\<lparr>row_id = 1, row_brand_name = ''Acme'',
       row_competitive_summary = ''crowded'', row_gaps_opportunities = ''tiers''\<rparr>,
      \<lparr>row_id = 2, row_brand_name = ''Zeta'',
       row_competitive_summary = ''z'', row_gaps_opportunities = ''zz''\<rparr>]"
    using upsert_checks_then_updates_or_inserts [of world2 env1 "''Acme''" None analysis1]
    by (simp add: env1_def world2_def world1_def analysis1_def rows_of_def write_fields_def)
  show "competitor_summary (snd (save_landscape_analysis env1 ''Acme'' (Some analysis1) world1)) =
     [\<lparr>row_id = 1, row_brand_name = ''Acme'',
       row_competitive_summary = ''crowded'', row_gaps_opportunities = ''tiers''\<rparr>]"
    using upsert_checks_then_updates_or_inserts [of world1 env1 "''Acme''" None analysis1]
    by (simp add: env1_def world1_def analysis1_def rows_of_def)
  show "fst (save_landscape_analysis env_store_down ''Acme'' (Some analysis1) world2) =
     Inl (Error ''select failed'')"
    using upsert_checks_then_updates_or_inserts
      [of world2 env_store_down "''Acme''" None analysis1 "Error ''select failed''"]
    by (simp add: env_store_down_def env1_def)
  show "fst (save_landscape_analysis env_update_down ''Acme'' (Some analysis1) world2) =
     Inl (Error ''update failed'')"
    using upsert_checks_then_updates_or_inserts
      [of world2 env_update_down "''Acme''" None analysis1 "Error ''update failed''"]
    by (simp add: env_update_down_def env1_def world2_def world1_def rows_of_def)
  show "fst (save_landscape_analysis env_insert_down ''Acme'' (Some analysis1) world1) =
     Inl (Error ''insert failed'')"
    using upsert_checks_then_updates_or_inserts
      [of world1 env_insert_down "''Acme''" None analysis1 "Error ''insert failed''"]
    by (simp add: env_insert_down_def env1_def world1_def rows_of_def)
qed

subsection \<open>The update path\<close>

text \<open>
  C10. When the existence check finds a row of the brand, the upsert changes no
  \<^verbatim>\<open>id\<close> and no \<^verbatim>\<open>brand_name\<close>, leaves the rows of other brands as they are, and
  the only write it issues is the update of the two text fields.
\<close>

theorem update_path_keeps_id_and_brand:
  assumes "summary_select_fault E = None" and "rows_of brand_name w \<noteq> []"
  shows "map row_id (competitor_summary (snd (save_landscape_analysis E brand_name an w))) =
           map row_id (competitor_summary w) \<and>
         map row_brand_name (competitor_summary (snd (save_landscape_analysis E brand_name an w))) =
           map row_brand_name (competitor_summary w) \<and>
         filter (\<lambda>r. row_brand_name r \<noteq> brand_name)
             (competitor_summary (snd (save_landscape_analysis E brand_name an w))) =
           filter (\<lambda>r. row_brand_name r \<noteq> brand_name) (competitor_summary w) \<and>
         (an = Some a \<longrightarrow>
            filter is_write (calls (snd (save_landscape_analysis E brand_name an w))) =
              filter is_write (calls w) @
                [UpdateSummary brand_name (competitive_summary a) (gaps_opportunities a)])"
proof (cases an)
  case None
  then show ?thesis
    using assms by (simp add: save_no_analysis is_write_def)
next
  case (Some a')
  show ?thesis
  proof (cases "summary_update_fault E")
    case None
    then show ?thesis
      using assms Some
      by (simp add: save_updates is_write_def filter_other_write_fields comp_def)
  next
    case (Some e)
    then show ?thesis
      using assms \<open>an = Some a'\<close>
      by (simp add: save_update_fails is_write_def)
  qed
qed

theorem update_path_keeps_id_and_brand_witness:
  "map row_id (competitor_summary
      (snd (save_landscape_analysis env1 ''Acme'' (Some analysis1) world2))) = [1, 2] \<and>
   map row_brand_name (competitor_summary
      (snd (save_landscape_analysis env1 ''Acme'' (Some analysis1) world2))) = [''Acme'', ''Zeta''] \<and>
   filter is_write (calls (snd (save_landscape_analysis env1 ''Acme'' (Some analysis1) world2))) =
      [UpdateSummary ''Acme'' ''crowded'' ''tiers'']"
  using update_path_keeps_id_and_brand [of env1 "''Acme''" world2 "Some analysis1" analysis1]
  by (simp add: env1_def world2_def world1_def rows_of_def analysis1_def)

section \<open>Properties of the handler\<close>

subsection \<open>The ways through the body of the handler\<close>

lemma create_try_fetch_fails:
  assumes "competitors_select_fault E = Some e"
  shows "create_try E b w =
           (Inl e, issue (SelectCompetitors b)
                     (logger_info (''Starting analysis for brand: '' @ b) w))"
  using assms by (simp add: create_try_def get_competitors_data_def select_competitors_def)

lemma create_try_no_rows:
  assumes "competitors_select_fault E = None" "competitor_rows b w = []"
  shows "create_try E b w =
           (Inl (HTTPException 404 ''No competitor data found''),
            logger_error (''No competitor data found for '' @ b)
              (issue (SelectCompetitors b)
                 (logger_info (''Starting analysis for brand: '' @ b) w)))"
  using assms by (simp add: create_try_def get_competitors_data_def select_competitors_def)

lemma create_try_analysis_fails:
  assumes "competitors_select_fault E = None" "competitor_rows b w \<noteq> []"
    "analyze_competitive_landscape E b (competitor_rows b w) = Inl e"
  shows "create_try E b w =
           (Inl e,
            logger_info (''Found data for '' @ str_nat (length (competitor_rows b w)) @
                         '' competitors'')
              (issue (SelectCompetitors b)
                 (logger_info (''Starting analysis for brand: '' @ b) w)))"
  using assms by (simp add: create_try_def get_competitors_data_def select_competitors_def)

lemma create_try_saves:
  assumes "competitors_select_fault E = None" "competitor_rows b w \<noteq> []"
    "analyze_competitive_landscape E b (competitor_rows b w) = Inr an"
  shows "create_try E b w =
           (case save_landscape_analysis E b an
                   (logger_info (''Found data for '' @ str_nat (length (competitor_rows b w)) @
                                 '' competitors'')
                      (issue (SelectCompetitors b)
                         (logger_info (''Starting analysis for brand: '' @ b) w))) of
              (Inl e, w3) \<Rightarrow> (Inl e, w3)
            | (Inr saved_analysis, w3) \<Rightarrow>
                (case an of
                   None \<Rightarrow> (Inl attribute_error, w3)
                 | Some a \<Rightarrow>
                     (Inr \<lparr>resp_brand_name = b,
                           resp_competitive_summary = competitive_summary a,
                           resp_gaps_opportunities = gaps_opportunities a\<rparr>, w3)))"
  using assms by (simp add: create_try_def get_competitors_data_def select_competitors_def)

text \<open>The upsert reads nothing of the state but the summary table.\<close>

lemma save_frame:
  assumes "competitor_summary w1 = competitor_summary w2"
  shows "fst (save_landscape_analysis E b an w1) = fst (save_landscape_analysis E b an w2) \<and>
         competitor_summary (snd (save_landscape_analysis E b an w1)) =
           competitor_summary (snd (save_landscape_analysis E b an w2)) \<and>
         (\<exists>X. calls (snd (save_landscape_analysis E b an w1)) = calls w1 @ X \<and>
              calls (snd (save_landscape_analysis E b an w2)) = calls w2 @ X)"
proof -
  have r: "rows_of b w1 = rows_of b w2"
    using assms by (simp add: rows_of_def)
  show ?thesis
  proof (cases "summary_select_fault E")
    case (Some e)
    then show ?thesis using assms by (simp add: save_select_fails)
  next
    case None
    note sel = this
    show ?thesis
    proof (cases an)
      case None
      then show ?thesis using sel assms by (simp add: save_no_analysis)
    next
      case (Some a)
      show ?thesis
      proof (cases "rows_of b w2 = []")
        case True
        then show ?thesis
          using sel Some assms r
          by (cases "summary_insert_fault E") (simp_all add: save_insert_fails save_inserts)
      next
        case False
        then show ?thesis
          using sel Some assms r
          by (cases "summary_update_fault E") (simp_all add: save_update_fails save_updates)
      qed
    qed
  qed
qed

text \<open>What a successful upsert has done.\<close>

lemma save_succeeds:
  assumes "fst (save_landscape_analysis E b an w) = Inr saved"
  shows "\<exists>a. an = Some a \<and>
           competitor_summary (snd (save_landscape_analysis E b an w)) =
             (if rows_of b w \<noteq> []
              then map (write_fields b (competitive_summary a) (gaps_opportunities a))
                     (competitor_summary w)
              else competitor_summary w @
                     [\<lparr>row_id = new_id E (competitor_summary w), row_brand_name = b,
                       row_competitive_summary = competitive_summary a,
                       row_gaps_opportunities = gaps_opportunities a\<rparr>]) \<and>
           calls (snd (save_landscape_analysis E b an w)) =
             calls w @
             [SelectSummary b,
              if rows_of b w \<noteq> []
              then UpdateSummary b (competitive_summary a) (gaps_opportunities a)
              else InsertSummary b (competitive_summary a) (gaps_opportunities a)]"
proof (cases "summary_select_fault E")
  case (Some e)
  then show ?thesis using assms by (simp add: save_select_fails)
next
  case None
  note sel = this
  show ?thesis
  proof (cases an)
    case None
    then show ?thesis using sel assms by (simp add: save_no_analysis)
  next
    case (Some a)
    show ?thesis
    proof (cases "rows_of b w = []")
      case True
      then show ?thesis
        using sel Some assms
        by (cases "summary_insert_fault E") (simp_all add: save_insert_fails save_inserts)
    next
      case False
      then show ?thesis
        using sel Some assms
        by (cases "summary_update_fault E") (simp_all add: save_update_fails save_updates)
    qed
  qed
qed

lemma create_analysis_returns:
  "create_try E b w = (Inr r, w') \<Longrightarrow> create_analysis E b w = (Inr r, w')"
  by (simp add: create_analysis_def)

lemma create_analysis_raises:
  "create_try E b w = (Inl e, w') \<Longrightarrow>
     create_analysis E b w =
       (Inl (HTTPException 500 (str_exn E e)),
        logger_error (''Error processing request: '' @ str_exn E e) w')"
  by (simp add: create_analysis_def)

lemma create_try_save_fails:
  assumes "competitors_select_fault E = None" "competitor_rows b w \<noteq> []"
    "analyze_competitive_landscape E b (competitor_rows b w) = Inr an"
    "fst (save_landscape_analysis E b an w) = Inl e"
  shows "fst (create_try E b w) = Inl e \<and>
         competitor_summary (snd (create_try E b w)) =
           competitor_summary (snd (save_landscape_analysis E b an w))"
proof -
  let ?W = "logger_info (''Found data for '' @ str_nat (length (competitor_rows b w)) @
                          '' competitors'')
              (issue (SelectCompetitors b)
                 (logger_info (''Starting analysis for brand: '' @ b) w))"
  have t: "competitor_summary ?W = competitor_summary w" by simp
  obtain res w3 where s: "save_landscape_analysis E b an ?W = (res, w3)"
    by (cases "save_landscape_analysis E b an ?W")
  from save_frame[OF t, of E b an] s assms(4)
  have "res = Inl e" and "competitor_summary w3 = competitor_summary (snd (save_landscape_analysis E b an w))"
    by simp_all
  then show ?thesis
    using s by (simp add: create_try_saves[OF assms(1-3)])
qed

lemma create_try_save_succeeds:
  assumes "competitors_select_fault E = None" "competitor_rows b w \<noteq> []"
    "analyze_competitive_landscape E b (competitor_rows b w) = Inr (Some a)"
    "fst (save_landscape_analysis E b (Some a) w) = Inr saved"
  shows "fst (create_try E b w) =
           Inr \<lparr>resp_brand_name = b, resp_competitive_summary = competitive_summary a,
                resp_gaps_opportunities = gaps_opportunities a\<rparr> \<and>
         competitor_summary (snd (create_try E b w)) =
           competitor_summary (snd (save_landscape_analysis E b (Some a) w)) \<and>
         (\<exists>X. calls (snd (create_try E b w)) = calls w @ SelectCompetitors b # X \<and>
              calls (snd (save_landscape_analysis E b (Some a) w)) = calls w @ X)"
proof -
  let ?W = "logger_info (''Found data for '' @ str_nat (length (competitor_rows b w)) @
                          '' competitors'')
              (issue (SelectCompetitors b)
                 (logger_info (''Starting analysis for brand: '' @ b) w))"
  have t: "competitor_summary ?W = competitor_summary w" by simp
  obtain res w3 where s: "save_landscape_analysis E b (Some a) ?W = (res, w3)"
    by (cases "save_landscape_analysis E b (Some a) ?W")
  from save_frame[OF t, of E b "Some a"] s assms(4)
  obtain X where r: "res = Inr saved"
    and c: "competitor_summary w3 = competitor_summary (snd (save_landscape_analysis E b (Some a) w))"
    and d: "calls w3 = calls ?W @ X"
    and d': "calls (snd (save_landscape_analysis E b (Some a) w)) = calls w @ X"
    by auto
  have "calls (snd (create_try E b w)) = calls w @ SelectCompetitors b # X"
    using s r d by (simp add: create_try_saves[OF assms(1-3)])
  with d' have "\<exists>X. calls (snd (create_try E b w)) = calls w @ SelectCompetitors b # X \<and>
              calls (snd (save_landscape_analysis E b (Some a) w)) = calls w @ X"
    by blast
  then show ?thesis
    using s r c by (simp add: create_try_saves[OF assms(1-3)])
qed

lemma create_analysis_succeeds:
  assumes "fst (create_analysis E b w) = Inr r"
  shows "\<exists>a saved. competitors_select_fault E = None \<and> competitor_rows b w \<noteq> [] \<and>
           analyze_competitive_landscape E b (competitor_rows b w) = Inr (Some a) \<and>
           fst (save_landscape_analysis E b (Some a) w) = Inr saved"
proof (cases "competitors_select_fault E")
  case (Some e)
  then show ?thesis
    using assms create_analysis_raises[OF create_try_fetch_fails] by fastforce
next
  case None
  note fetch = this
  show ?thesis
  proof (cases "competitor_rows b w = []")
    case True
    then show ?thesis
      using assms fetch create_analysis_raises[OF create_try_no_rows] by fastforce
  next
    case False
    note rows = this
    show ?thesis
    proof (cases "analyze_competitive_landscape E b (competitor_rows b w)")
      case (Inl e)
      then show ?thesis
        using assms create_analysis_raises[OF create_try_analysis_fails[OF fetch rows]]
        by fastforce
    next
      case (Inr an)
      show ?thesis
      proof (cases "fst (save_landscape_analysis E b an w)")
        case (Inl e)
        from create_try_save_fails[OF fetch rows Inr Inl]
        obtain w' where "create_try E b w = (Inl e, w')"
          by (cases "create_try E b w") auto
        from create_analysis_raises[OF this] assms show ?thesis by simp
      next
        case (Inr saved)
        from save_succeeds[OF Inr] obtain a where "an = Some a" by blast
        with fetch rows \<open>analyze_competitive_landscape E b (competitor_rows b w) = Inr an\<close> Inr
        show ?thesis by blast
      qed
    qed
  qed
qed

lemma create_analysis_effect:
  assumes "competitors_select_fault E = None" "competitor_rows b w \<noteq> []"
    "analyze_competitive_landscape E b (competitor_rows b w) = Inr (Some a)"
    "fst (save_landscape_analysis E b (Some a) w) = Inr saved"
  shows "fst (create_analysis E b w) =
           Inr \<lparr>resp_brand_name = b, resp_competitive_summary = competitive_summary a,
                resp_gaps_opportunities = gaps_opportunities a\<rparr> \<and>
         competitor_summary (snd (create_analysis E b w)) =
           (if rows_of b w \<noteq> []
            then map (write_fields b (competitive_summary a) (gaps_opportunities a))
                   (competitor_summary w)
            else competitor_summary w @
                   [\<lparr>row_id = new_id E (competitor_summary w), row_brand_name = b,
                     row_competitive_summary = competitive_summary a,
                     row_gaps_opportunities = gaps_opportunities a\<rparr>]) \<and>
         calls (snd (create_analysis E b w)) =
           calls w @
           [SelectCompetitors b, SelectSummary b,
            if rows_of b w \<noteq> []
            then UpdateSummary b (competitive_summary a) (gaps_opportunities a)
            else InsertSummary b (competitive_summary a) (gaps_opportunities a)]"
proof -
  from create_try_save_succeeds[OF assms]
  obtain X where f: "fst (create_try E b w) =
           Inr \<lparr>resp_brand_name = b, resp_competitive_summary = competitive_summary a,
                resp_gaps_opportunities = gaps_opportunities a\<rparr>"
    and t: "competitor_summary (snd (create_try E b w)) =
           competitor_summary (snd (save_landscape_analysis E b (Some a) w))"
    and c: "calls (snd (create_try E b w)) = calls w @ SelectCompetitors b # X"
    and c': "calls (snd (save_landscape_analysis E b (Some a) w)) = calls w @ X"
    by blast
  from save_succeeds[OF assms(4)]
  have t': "competitor_summary (snd (save_landscape_analysis E b (Some a) w)) =
             (if rows_of b w \<noteq> []
              then map (write_fields b (competitive_summary a) (gaps_opportunities a))
                     (competitor_summary w)
              else competitor_summary w @
                     [\<lparr>row_id = new_id E (competitor_summary w), row_brand_name = b,
                       row_competitive_summary = competitive_summary a,
                       row_gaps_opportunities = gaps_opportunities a\<rparr>])"
    and x: "calls (snd (save_landscape_analysis E b (Some a) w)) =
             calls w @
             [SelectSummary b,
              if rows_of b w \<noteq> []
              then UpdateSummary b (competitive_summary a) (gaps_opportunities a)
              else InsertSummary b (competitive_summary a) (gaps_opportunities a)]"
    by simp_all
  from c' x have X: "X = [SelectSummary b,
              if rows_of b w \<noteq> []
              then UpdateSummary b (competitive_summary a) (gaps_opportunities a)
              else InsertSummary b (competitive_summary a) (gaps_opportunities a)]"
    by simp
  obtain w' where ct: "create_try E b w =
      (Inr \<lparr>resp_brand_name = b, resp_competitive_summary = competitive_summary a,
            resp_gaps_opportunities = gaps_opportunities a\<rparr>, w')"
    using f by (cases "create_try E b w") auto
  have ca: "create_analysis E b w =
      (Inr \<lparr>resp_brand_name = b, resp_competitive_summary = competitive_summary a,
            resp_gaps_opportunities = gaps_opportunities a\<rparr>, w')"
    using ct by (rule create_analysis_returns)
  have "competitor_summary w' = competitor_summary (snd (save_landscape_analysis E b (Some a) w))"
    using t ct by simp
  moreover have "calls w' = calls w @ SelectCompetitors b # X"
    using c ct by simp
  ultimately show ?thesis
    unfolding ca t' X by simp
qed

lemma rows_after_upsert:
  assumes "competitor_summary w' =
           (if rows_of b w \<noteq> []
            then map (write_fields b cs go) (competitor_summary w)
            else competitor_summary w @
                   [\<lparr>row_id = i, row_brand_name = b,
                     row_competitive_summary = cs, row_gaps_opportunities = go\<rparr>])"
  shows "rows_of b w' =
           (if rows_of b w \<noteq> [] then map (write_fields b cs go) (rows_of b w)
            else [\<lparr>row_id = i, row_brand_name = b,
                   row_competitive_summary = cs, row_gaps_opportunities = go\<rparr>])"
  using assms by (simp add: rows_of_def filter_write_fields)

lemma rows_after_upsert_text:
  assumes "rows_of b w' =
           (if rows_of b w \<noteq> [] then map (write_fields b cs go) (rows_of b w)
            else [\<lparr>row_id = i, row_brand_name = b,
                   row_competitive_summary = cs, row_gaps_opportunities = go\<rparr>])"
    and "r \<in> set (rows_of b w')"
  shows "row_competitive_summary r = cs \<and> row_gaps_opportunities r = go"
proof (cases "rows_of b w = []")
  case True
  then show ?thesis using assms by simp
next
  case False
  with assms obtain r0 where "r0 \<in> set (rows_of b w)" "r = write_fields b cs go r0"
    by auto
  moreover from this have "row_brand_name r0 = b" by (simp add: rows_of_def)
  ultimately show ?thesis by (simp add: write_fields_text)
qed

lemma rows_after_upsert_length:
  assumes "rows_of b w' =
           (if rows_of b w \<noteq> [] then map (write_fields b cs go) (rows_of b w)
            else [\<lparr>row_id = i, row_brand_name = b,
                   row_competitive_summary = cs, row_gaps_opportunities = go\<rparr>])"
  shows "length (rows_of b w') = max 1 (length (rows_of b w))"
  using assms by (cases "rows_of b w") simp_all

subsection \<open>No competitor rows\<close>

text \<open>
  C1. For a brand without competitor rows the body of the handler raises
  \<^verbatim>\<open>HTTPException(404, "No competitor data found")\<close>, but the \<^verbatim>\<open>except Exception\<close>
  that encloses it catches that exception too: the handler answers 500, with
  \<^verbatim>\<open>str\<close> of the 404 exception as detail. The store receives the one read and no
  write.
\<close>

theorem not_found_is_answered_with_500:
  "fst (create_try env1 ''Acme'' world0) = Inl (HTTPException 404 ''No competitor data found'') \<and>
   fst (create_analysis env1 ''Acme'' world0) =
     Inl (HTTPException 500 ''404: No competitor data found'') \<and>
   status_code (fst (create_analysis env1 ''Acme'' world0)) = 500 \<and>
   calls (snd (create_analysis env1 ''Acme'' world0)) = [SelectCompetitors ''Acme''] \<and>
   competitor_summary (snd (create_analysis env1 ''Acme'' world0)) = []"
proof -
  have f: "competitors_select_fault env1 = None"
    by (simp add: env1_def)
  have r: "competitor_rows ''Acme'' world0 = []"
    by (simp add: competitor_rows_def world0_def)
  note t = create_try_no_rows[OF f r]
  have s: "str_exn env1 (HTTPException 404 ''No competitor data found'') =
           ''404: No competitor data found''"
    by (simp add: str_exn_def env1_def str_nat.simps)
  show ?thesis
    unfolding create_analysis_raises[OF t] t s
    by (simp add: status_code_def world0_def)
qed

subsection \<open>The completion service raises\<close>

text \<open>
  C2. For a brand with at least one competitor row, when the completion call raises,
  the handler answers 500 with the message of the exception, the summary table is
  what it was before the request, and the only request the store has received is the
  read of the competitors: no update and no insert.
\<close>

theorem completion_failure_leaves_store:
  assumes "competitors_select_fault E = None"
    and "competitor_rows brand_name w \<noteq> []"
    and "analyze_competitive_landscape E brand_name (competitor_rows brand_name w) = Inl e"
  shows "fst (create_analysis E brand_name w) = Inl (HTTPException 500 (str_exn E e)) \<and>
         status_code (fst (create_analysis E brand_name w)) = 500 \<and>
         competitor_summary (snd (create_analysis E brand_name w)) = competitor_summary w \<and>
         calls (snd (create_analysis E brand_name w)) = calls w @ [SelectCompetitors brand_name] \<and>
         filter is_write (calls (snd (create_analysis E brand_name w))) = filter is_write (calls w)"
  unfolding create_analysis_raises[OF create_try_analysis_fails[OF assms]]
  by (simp add: status_code_def is_write_def)

theorem completion_failure_leaves_store_witness:
  "fst (create_analysis env_llm_down ''Acme'' world2) =
     Inl (HTTPException 500 ''Connection error.'') \<and>
   competitor_summary (snd (create_analysis env_llm_down ''Acme'' world2)) =
     competitor_summary world2 \<and>
   calls (snd (create_analysis env_llm_down ''Acme'' world2)) = [SelectCompetitors ''Acme'']"
  using completion_failure_leaves_store
    [of env_llm_down "''Acme''" world2 "Error ''Connection error.''"]
  by (simp add: env_llm_down_def env1_def world2_def world1_def competitor_rows_def
      analyze_competitive_landscape_def str_exn_def)

subsection \<open>Every failure is a 500\<close>

text \<open>
  C8. Whatever exception the body of the handler raises is answered with status 500
  and \<^verbatim>\<open>str\<close> of that exception as detail: so it is when the read of the
  competitors raises, when the completion call raises, and when the upsert raises.
\<close>

theorem failures_collapse_to_500:
  "(fst (create_try E brand_name w) = Inl e \<longrightarrow>
      fst (create_analysis E brand_name w) = Inl (HTTPException 500 (str_exn E e)) \<and>
      status_code (fst (create_analysis E brand_name w)) = 500) \<and>
   (competitors_select_fault E = Some e \<longrightarrow>
      fst (create_analysis E brand_name w) = Inl (HTTPException 500 (str_exn E e))) \<and>
   (competitors_select_fault E = None \<and> competitor_rows brand_name w \<noteq> [] \<and>
    analyze_competitive_landscape E brand_name (competitor_rows brand_name w) = Inl e \<longrightarrow>
      fst (create_analysis E brand_name w) = Inl (HTTPException 500 (str_exn E e))) \<and>
   (competitors_select_fault E = None \<and> competitor_rows brand_name w \<noteq> [] \<and>
    analyze_competitive_landscape E brand_name (competitor_rows brand_name w) = Inr an \<and>
    fst (save_landscape_analysis E brand_name an w) = Inl e \<longrightarrow>
      fst (create_analysis E brand_name w) = Inl (HTTPException 500 (str_exn E e)))"
proof (intro conjI impI)
  assume a: "fst (create_try E brand_name w) = Inl e"
  then obtain w' where "create_try E brand_name w = (Inl e, w')"
    by (cases "create_try E brand_name w") auto
  note r = create_analysis_raises[OF this]
  show "fst (create_analysis E brand_name w) = Inl (HTTPException 500 (str_exn E e))"
    by (simp add: r)
  then show "status_code (fst (create_analysis E brand_name w)) = 500"
    by (simp add: status_code_def)
next
  assume "competitors_select_fault E = Some e"
  from create_analysis_raises[OF create_try_fetch_fails[OF this]]
  show "fst (create_analysis E brand_name w) = Inl (HTTPException 500 (str_exn E e))"
    by simp
next
  assume "competitors_select_fault E = None \<and> competitor_rows brand_name w \<noteq> [] \<and>
    analyze_competitive_landscape E brand_name (competitor_rows brand_name w) = Inl e"
  then have "create_try E brand_name w =
           (Inl e,
            logger_info (''Found data for '' @ str_nat (length (competitor_rows brand_name w)) @
                         '' competitors'')
              (issue (SelectCompetitors brand_name)
                 (logger_info (''Starting analysis for brand: '' @ brand_name) w)))"
    by (simp add: create_try_analysis_fails)
  from create_analysis_raises[OF this]
  show "fst (create_analysis E brand_name w) = Inl (HTTPException 500 (str_exn E e))"
    by simp
next
  assume "competitors_select_fault E = None \<and> competitor_rows brand_name w \<noteq> [] \<and>
    analyze_competitive_landscape E brand_name (competitor_rows brand_name w) = Inr an \<and>
    fst (save_landscape_analysis E brand_name an w) = Inl e"
  then have "fst (create_try E brand_name w) = Inl e"
    by (simp add: create_try_save_fails)
  then obtain w' where "create_try E brand_name w = (Inl e, w')"
    by (cases "create_try E brand_name w") auto
  from create_analysis_raises[OF this]
  show "fst (create_analysis E brand_name w) = Inl (HTTPException 500 (str_exn E e))"
    by simp
qed

theorem failures_collapse_to_500_witness:
  "fst (create_analysis env_fetch_down ''Acme'' world2) = Inl (HTTPException 500 ''fetch failed'') \<and>
   fst (create_analysis env_llm_down ''Acme'' world2) =
     Inl (HTTPException 500 ''Connection error.'') \<and>
   fst (create_analysis env_store_down ''Acme'' world2) = Inl (HTTPException 500 ''select failed'') \<and>
   fst (create_analysis env_update_down ''Acme'' world2) = Inl (HTTPException 500 ''update failed'') \<and>
   fst (create_analysis env_insert_down ''Acme'' world1) = Inl (HTTPException 500 ''insert failed'')"
proof (intro conjI)
  show "fst (create_analysis env_fetch_down ''Acme'' world2) =
          Inl (HTTPException 500 ''fetch failed'')"
    using failures_collapse_to_500 [of env_fetch_down "''Acme''" world2 "Error ''fetch failed''"]
    by (simp add: env_fetch_down_def env1_def str_exn_def)
  show "fst (create_analysis env_llm_down ''Acme'' world2) =
          Inl (HTTPException 500 ''Connection error.'')"
    using failures_collapse_to_500
      [of env_llm_down "''Acme''" world2 "Error ''Connection error.''"]
    by (simp add: env_llm_down_def env1_def world2_def world1_def competitor_rows_def
        analyze_competitive_landscape_def str_exn_def)
  have s: "fst (save_landscape_analysis env_store_down ''Acme'' (Some analysis1) world2) =
             Inl (Error ''select failed'')"
    by (simp add: save_select_fails env_store_down_def env1_def)
  show "fst (create_analysis env_store_down ''Acme'' world2) =
          Inl (HTTPException 500 ''select failed'')"
    using s failures_collapse_to_500
      [of env_store_down "''Acme''" world2 "Error ''select failed''" "Some analysis1"]
    by (simp add: env_store_down_def env1_def world2_def world1_def competitor_rows_def
        analyze_competitive_landscape_def str_exn_def)
  have u: "fst (save_landscape_analysis env_update_down ''Acme'' (Some analysis1) world2) =
             Inl (Error ''update failed'')"
    by (simp add: save_update_fails env_update_down_def env1_def world2_def world1_def rows_of_def)
  show "fst (create_analysis env_update_down ''Acme'' world2) =
          Inl (HTTPException 500 ''update failed'')"
    using u failures_collapse_to_500
      [of env_update_down "''Acme''" world2 "Error ''update failed''" "Some analysis1"]
    by (simp add: env_update_down_def env1_def world2_def world1_def competitor_rows_def
        analyze_competitive_landscape_def str_exn_def)
  have i: "fst (save_landscape_analysis env_insert_down ''Acme'' (Some analysis1) world1) =
             Inl (Error ''insert failed'')"
    by (simp add: save_insert_fails env_insert_down_def env1_def world1_def rows_of_def)
  show "fst (create_analysis env_insert_down ''Acme'' world1) =
          Inl (HTTPException 500 ''insert failed'')"
    using i failures_collapse_to_500
      [of env_insert_down "''Acme''" world1 "Error ''insert failed''" "Some analysis1"]
    by (simp add: env_insert_down_def env1_def world1_def competitor_rows_def
        analyze_competitive_landscape_def str_exn_def)
qed

subsection \<open>A successful request\<close>

text \<open>
  C5. For a brand with at least one competitor row, when the completion call returns
  an analysis and the upsert of that analysis into the summary table succeeds, the
  handler answers 200 with the brand name and the two fields of that analysis, and
  every summary row of the brand then holds the same two fields; there is such a row.
\<close>

theorem success_returns_persisted_analysis:
  assumes "competitors_select_fault E = None"
    and "competitor_rows brand_name w \<noteq> []"
    and "analyze_competitive_landscape E brand_name (competitor_rows brand_name w) = Inr (Some a)"
    and "fst (save_landscape_analysis E brand_name (Some a) w) = Inr saved"
  shows "fst (create_analysis E brand_name w) =
           Inr \<lparr>resp_brand_name = brand_name,
                resp_competitive_summary = competitive_summary a,
                resp_gaps_opportunities = gaps_opportunities a\<rparr> \<and>
         status_code (fst (create_analysis E brand_name w)) = 200 \<and>
         rows_of brand_name (snd (create_analysis E brand_name w)) \<noteq> [] \<and>
         (\<forall>r \<in> set (rows_of brand_name (snd (create_analysis E brand_name w))).
            row_competitive_summary r = competitive_summary a \<and>
            row_gaps_opportunities r = gaps_opportunities a)"
proof -
  note eff = create_analysis_effect[OF assms]
  note rows = rows_after_upsert[OF eff[THEN conjunct2, THEN conjunct1]]
  have "length (rows_of brand_name (snd (create_analysis E brand_name w))) =
          max 1 (length (rows_of brand_name w))"
    using rows by (rule rows_after_upsert_length)
  then have ne: "rows_of brand_name (snd (create_analysis E brand_name w)) \<noteq> []"
    by auto
  have same: "\<forall>r \<in> set (rows_of brand_name (snd (create_analysis E brand_name w))).
            row_competitive_summary r = competitive_summary a \<and>
            row_gaps_opportunities r = gaps_opportunities a"
    using rows_after_upsert_text[OF rows] by blast
  from eff have "fst (create_analysis E brand_name w) =
           Inr \<lparr>resp_brand_name = brand_name,
                resp_competitive_summary = competitive_summary a,
                resp_gaps_opportunities = gaps_opportunities a\<rparr>"
    by simp
  moreover from this have "status_code (fst (create_analysis E brand_name w)) = 200"
    by (simp add: status_code_def)
  ultimately show ?thesis using ne same by blast
qed

text \<open>The example requests, evaluated.\<close>

lemma example_hypotheses:
  "competitors_select_fault env1 = None"
  "competitors_select_fault env2 = None"
  "competitor_rows ''Acme'' world1 \<noteq> []"
  "competitor_rows ''Acme'' world_dup \<noteq> []"
  "analyze_competitive_landscape env1 b cs = Inr (Some analysis1)"
  "analyze_competitive_landscape env2 b cs = Inr (Some analysis2)"
  by (simp_all add: env1_def env2_def world1_def world_dup_def competitor_rows_def
      analyze_competitive_landscape_def)

lemma example_first_save:
  "fst (save_landscape_analysis env1 ''Acme'' (Some analysis1) world1) =
     Inr \<lparr>row_id = 1, row_brand_name = ''Acme'',
          row_competitive_summary = ''crowded'', row_gaps_opportunities = ''tiers''\<rparr>"
  by (simp add: save_inserts env1_def world1_def rows_of_def analysis1_def)

lemma example_dup_save:
  "fst (save_landscape_analysis env1 ''Acme'' (Some analysis1) world_dup) =
     Inr \<lparr>row_id = 1, row_brand_name = ''Acme'',
          row_competitive_summary = ''crowded'', row_gaps_opportunities = ''tiers''\<rparr>"
  by (simp add: save_updates env1_def world_dup_def world1_def rows_of_def analysis1_def
      write_fields_def)

theorem success_returns_persisted_analysis_witness:
  "fst (create_analysis env1 ''Acme'' world1) =
     Inr \<lparr>resp_brand_name = ''Acme'', resp_competitive_summary = ''crowded'',
          resp_gaps_opportunities = ''tiers''\<rparr> \<and>
   status_code (fst (create_analysis env1 ''Acme'' world1)) = 200 \<and>
   rows_of ''Acme'' (snd (create_analysis env1 ''Acme'' world1)) \<noteq> []"
  using success_returns_persisted_analysis
    [OF example_hypotheses(1) example_hypotheses(3) example_hypotheses(5) example_first_save]
  by (simp add: analysis1_def status_code_def)

subsection \<open>One summary row per brand\<close>

text \<open>
  A successful request leaves as many summary rows of the brand as there were, and
  one when there was none.
\<close>

lemma rows_after_success:
  assumes "fst (create_analysis E b w) = Inr r"
  shows "length (rows_of b (snd (create_analysis E b w))) = max 1 (length (rows_of b w)) \<and>
         (\<forall>row \<in> set (rows_of b (snd (create_analysis E b w))).
            row_competitive_summary row = resp_competitive_summary r \<and>
            row_gaps_opportunities row = resp_gaps_opportunities r) \<and>
         (rows_of b w \<noteq> [] \<longrightarrow>
            calls (snd (create_analysis E b w)) =
              calls w @ [SelectCompetitors b, SelectSummary b,
                         UpdateSummary b (resp_competitive_summary r) (resp_gaps_opportunities r)])"
proof -
  from create_analysis_succeeds[OF assms] obtain a saved
    where h: "competitors_select_fault E = None" "competitor_rows b w \<noteq> []"
      "analyze_competitive_landscape E b (competitor_rows b w) = Inr (Some a)"
      "fst (save_landscape_analysis E b (Some a) w) = Inr saved"
    by blast
  note eff = create_analysis_effect[OF h]
  note rows = rows_after_upsert[OF eff[THEN conjunct2, THEN conjunct1]]
  from eff assms have r: "r = \<lparr>resp_brand_name = b,
      resp_competitive_summary = competitive_summary a,
      resp_gaps_opportunities = gaps_opportunities a\<rparr>"
    by simp
  have "length (rows_of b (snd (create_analysis E b w))) = max 1 (length (rows_of b w))"
    using rows by (rule rows_after_upsert_length)
  moreover have "\<forall>row \<in> set (rows_of b (snd (create_analysis E b w))).
            row_competitive_summary row = resp_competitive_summary r \<and>
            row_gaps_opportunities row = resp_gaps_opportunities r"
    using rows_after_upsert_text[OF rows] by (simp add: r)
  moreover have "rows_of b w \<noteq> [] \<longrightarrow>
            calls (snd (create_analysis E b w)) =
              calls w @ [SelectCompetitors b, SelectSummary b,
                         UpdateSummary b (resp_competitive_summary r) (resp_gaps_opportunities r)]"
    using eff by (simp add: r)
  ultimately show ?thesis by blast
qed

text \<open>
  C3, as the code has it. The claim fails on a store that already holds two summary
  rows of the brand: the update writes both and both remain.
\<close>

theorem duplicate_rows_remain:
  "status_code (fst (create_analysis env1 ''Acme'' world_dup)) = 200 \<and>
   length (rows_of ''Acme'' (snd (create_analysis env1 ''Acme'' world_dup))) = 2"
proof -
  note eff = create_analysis_effect
    [OF example_hypotheses(1) example_hypotheses(4) example_hypotheses(5) example_dup_save]
  from eff have "status_code (fst (create_analysis env1 ''Acme'' world_dup)) = 200"
    by (simp add: status_code_def)
  moreover from eff
  have "fst (create_analysis env1 ''Acme'' world_dup) =
          Inr \<lparr>resp_brand_name = ''Acme'',
               resp_competitive_summary = competitive_summary analysis1,
               resp_gaps_opportunities = gaps_opportunities analysis1\<rparr>"
    by simp
  from rows_after_success[OF this]
  have "length (rows_of ''Acme'' (snd (create_analysis env1 ''Acme'' world_dup))) = 2"
    by (simp add: world_dup_def world1_def rows_of_def)
  ultimately show ?thesis by simp
qed

text \<open>
  C3, amended. When the store holds at most one summary row of the brand before a
  successful request, it holds exactly one after it. Two successful requests in
  sequence for the same brand, from such a store, leave one row of the brand; its two
  text fields are those of the second answer, and the write of the second request
  is an update, not an insert.
\<close>

theorem one_row_after_success:
  "(fst (create_analysis E brand_name w) = Inr r \<and> length (rows_of brand_name w) \<le> 1 \<longrightarrow>
      length (rows_of brand_name (snd (create_analysis E brand_name w))) = 1) \<and>
   (fst (create_analysis E1 brand_name w) = Inr r1 \<and>
    fst (create_analysis E2 brand_name (snd (create_analysis E1 brand_name w))) = Inr r2 \<and>
    length (rows_of brand_name w) \<le> 1 \<longrightarrow>
      (\<exists>row. rows_of brand_name
                (snd (create_analysis E2 brand_name (snd (create_analysis E1 brand_name w)))) =
                [row] \<and>
             row_competitive_summary row = resp_competitive_summary r2 \<and>
             row_gaps_opportunities row = resp_gaps_opportunities r2) \<and>
      calls (snd (create_analysis E2 brand_name (snd (create_analysis E1 brand_name w)))) =
        calls (snd (create_analysis E1 brand_name w)) @
          [SelectCompetitors brand_name, SelectSummary brand_name,
           UpdateSummary brand_name (resp_competitive_summary r2) (resp_gaps_opportunities r2)])"
proof (intro conjI impI)
  assume "fst (create_analysis E brand_name w) = Inr r \<and> length (rows_of brand_name w) \<le> 1"
  then show "length (rows_of brand_name (snd (create_analysis E brand_name w))) = 1"
    using rows_after_success[of E brand_name w r] by auto
next
  assume a: "fst (create_analysis E1 brand_name w) = Inr r1 \<and>
    fst (create_analysis E2 brand_name (snd (create_analysis E1 brand_name w))) = Inr r2 \<and>
    length (rows_of brand_name w) \<le> 1"
  let ?w1 = "snd (create_analysis E1 brand_name w)"
  let ?w2 = "snd (create_analysis E2 brand_name ?w1)"
  from a rows_after_success[of E1 brand_name w r1]
  have one: "length (rows_of brand_name ?w1) = 1" by auto
  from a have s2: "fst (create_analysis E2 brand_name ?w1) = Inr r2" by simp
  note second = rows_after_success[OF s2]
  from second one have "length (rows_of brand_name ?w2) = 1" by simp
  then obtain row where row: "rows_of brand_name ?w2 = [row]"
    by (cases "rows_of brand_name ?w2") auto
  with second have "row_competitive_summary row = resp_competitive_summary r2 \<and>
             row_gaps_opportunities row = resp_gaps_opportunities r2"
    by simp
  with row show "\<exists>row. rows_of brand_name ?w2 = [row] \<and>
             row_competitive_summary row = resp_competitive_summary r2 \<and>
             row_gaps_opportunities row = resp_gaps_opportunities r2"
    by blast
  from one have "rows_of brand_name ?w1 \<noteq> []" by auto
  with second show "calls ?w2 = calls ?w1 @
          [SelectCompetitors brand_name, SelectSummary brand_name,
           UpdateSummary brand_name (resp_competitive_summary r2) (resp_gaps_opportunities r2)]"
    by blast
qed

lemma example_first_run:
  "competitors (snd (create_analysis env1 ''Acme'' world1)) = competitors world1 \<and>
   competitor_summary (snd (create_analysis env1 ''Acme'' world1)) =
     [\<lparr>row_id = 1, row_brand_name = ''Acme'',
       row_competitive_summary = ''crowded'', row_gaps_opportunities = ''tiers''\<rparr>]"
  by (simp add: create_analysis_def create_try_def get_competitors_data_def
      select_competitors_def competitor_rows_def analyze_competitive_landscape_def
      save_landscape_analysis_def save_try_def select_summary_def rows_of_def
      insert_summary_def first_row_def env1_def world1_def analysis1_def Let_def)

lemma example_second_save:
  "fst (save_landscape_analysis env2 ''Acme'' (Some analysis2)
          (snd (create_analysis env1 ''Acme'' world1))) =
     Inr \<lparr>row_id = 1, row_brand_name = ''Acme'',
          row_competitive_summary = ''sparse'', row_gaps_opportunities = ''coupons''\<rparr>"
proof -
  let ?w1 = "snd (create_analysis env1 ''Acme'' world1)"
  have rows: "rows_of ''Acme'' ?w1 =
     [\<lparr>row_id = 1, row_brand_name = ''Acme'',
       row_competitive_summary = ''crowded'', row_gaps_opportunities = ''tiers''\<rparr>]"
    using example_first_run by (simp add: rows_of_def)
  then have ne: "rows_of ''Acme'' ?w1 \<noteq> []"
    by simp
  have f: "summary_select_fault env2 = None" "summary_update_fault env2 = None"
    by (simp_all add: env2_def env1_def)
  show ?thesis
    unfolding save_updates[OF f(1) ne f(2)] rows
    by (simp add: write_fields_def analysis2_def)
qed

theorem one_row_after_success_witness:
  "length (rows_of ''Acme'' (snd (create_analysis env1 ''Acme'' world1))) = 1 \<and>
   (\<exists>row. rows_of ''Acme''
            (snd (create_analysis env2 ''Acme'' (snd (create_analysis env1 ''Acme'' world1)))) =
            [row] \<and>
          row_competitive_summary row = ''sparse'' \<and>
          row_gaps_opportunities row = ''coupons'')"
proof -
  have r1: "fst (create_analysis env1 ''Acme'' world1) =
              Inr \<lparr>resp_brand_name = ''Acme'', resp_competitive_summary = ''crowded'',
                   resp_gaps_opportunities = ''tiers''\<rparr>"
    using create_analysis_effect
      [OF example_hypotheses(1) example_hypotheses(3) example_hypotheses(5) example_first_save]
    by (simp add: analysis1_def)
  have "competitors (snd (create_analysis env1 ''Acme'' world1)) = competitors world1"
    using example_first_run by simp
  then have c: "competitor_rows ''Acme'' (snd (create_analysis env1 ''Acme'' world1)) \<noteq> []"
    unfolding competitor_rows_def by (simp add: world1_def)
  have r2: "fst (create_analysis env2 ''Acme'' (snd (create_analysis env1 ''Acme'' world1))) =
              Inr \<lparr>resp_brand_name = ''Acme'', resp_competitive_summary = ''sparse'',
                   resp_gaps_opportunities = ''coupons''\<rparr>"
    using create_analysis_effect
      [OF example_hypotheses(2) c example_hypotheses(6) example_second_save]
    by (simp add: analysis2_def)
  have l: "length (rows_of ''Acme'' world1) \<le> 1"
    by (simp add: rows_of_def world1_def)
  from one_row_after_success
    [of env1 "''Acme''" world1 "\<lparr>resp_brand_name = ''Acme'', resp_competitive_summary = ''crowded'',
                   resp_gaps_opportunities = ''tiers''\<rparr>" env1
        "\<lparr>resp_brand_name = ''Acme'', resp_competitive_summary = ''crowded'',
                   resp_gaps_opportunities = ''tiers''\<rparr>" env2
        "\<lparr>resp_brand_name = ''Acme'', resp_competitive_summary = ''sparse'',
                   resp_gaps_opportunities = ''coupons''\<rparr>"] r1 r2 l
  show ?thesis by simp
qed

end
